theory Spec2Isabelle
  imports Main "HOL-Library.Word"
begin

section \<open>Data model\<close>

text \<open>
  The package \<^verbatim>\<open>mesh\<close> (file \<^verbatim>\<open>provider/mesh/peer.go\<close>) holds two gossip-replicated
  stores: \<^verbatim>\<open>NotificationInfos\<close> and \<^verbatim>\<open>Silences\<close>.

  An instant (\<^verbatim>\<open>time.Time\<close>) is an integer number of clock ticks; \<^verbatim>\<open>t.Before(u)\<close> is
  \<open>t < u\<close>. A \<^verbatim>\<open>model.Fingerprint\<close> is an unsigned 64-bit integer, a \<^verbatim>\<open>uuid.UUID\<close> is
  16 bytes, read as one 128-bit word; \<^verbatim>\<open>uuid.Nil\<close> is the all-zero identifier.
\<close>

type_synonym time = int
type_synonym fingerprint = "64 word"
type_synonym uuid = "128 word"

definition uuid_Nil :: uuid where
  "uuid_Nil = 0"

text \<open>
  Errors are values. \<^verbatim>\<open>provider.ErrNotFound\<close> is a sentinel, \<^verbatim>\<open>fmt.Errorf\<close> builds an
  error from its message, an error handed over by a callee (the decoder) is passed on as
  it is, and a call through the nil \<^verbatim>\<open>send\<close> interface (no \<^verbatim>\<open>Register\<close> yet) panics.
\<close>

datatype error =
    ErrNotFound
  | Errorf string
  | DecodeError string
  | PanicNilGossip

text \<open>
  \<^verbatim>\<open>types.NotifyInfo\<close>, as peer.go reads and builds it, and the entry the notification
  store keeps for it (the composite literal of \<^verbatim>\<open>NotificationInfos.Set\<close>).
\<close>

record NotifyInfo =
  Alert :: fingerprint
  Receiver :: string
  Resolved :: bool
  Timestamp :: time

record notificationEntry =
  Resolved :: bool
  Timestamp :: time

type_synonym notificationState = "string \<rightharpoonup> notificationEntry"

text \<open>
  \<^verbatim>\<open>NotificationInfos\<close>: the state \<^verbatim>\<open>ni.st\<close> (its \<^verbatim>\<open>set\<close> map) and the gossip handle
  \<^verbatim>\<open>ni.send\<close>. The handle is \<open>None\<close> until \<^verbatim>\<open>Register\<close>; a registered handle is
  represented by the list of updates handed to \<^verbatim>\<open>GossipBroadcast\<close> so far.
\<close>

record NotificationInfos =
  ni_st :: notificationState
  ni_send :: "notificationState list option"

text \<open>
  Modelled from the spec: \<^verbatim>\<open>types.Silence\<close> is declared in package types, which is not
  among the sources; its fields are those of section 3 of the specification. The type
  of the matchers is left open.
\<close>

record 'm Silence =
  ID :: uuid
  Matchers :: 'm
  StartsAt :: time
  EndsAt :: time
  UpdatedAt :: time
  CreatedBy :: string
  Comment :: string

text \<open>
  The silence store maps an identifier to a pointer (\<^verbatim>\<open>map[uuid.UUID]*types.Silence\<close>),
  and \<^verbatim>\<open>Set\<close>, \<^verbatim>\<open>Get\<close> and \<^verbatim>\<open>All\<close> take and return such pointers. The objects the
  pointers refer to live in a heap: a list of silences, an address being an index into
  it. Go pointers to live objects are never dangling, so every address in use is below
  the length of the heap; \<^verbatim>\<open>&newSil\<close> allocates at the end.

  The state of a \<^verbatim>\<open>Silences\<close> value is the heap together with \<^verbatim>\<open>s.st\<close> (its
  \<^verbatim>\<open>set\<close> map) and \<^verbatim>\<open>s.send\<close>.
\<close>

type_synonym addr = nat
type_synonym silenceState = "uuid \<rightharpoonup> addr"

record 'm Silences =
  heap :: "'m Silence list"
  s_st :: silenceState
  s_send :: "silenceState list option"

type_synonym byte = "8 word"

section \<open>The replicated set (state.go)\<close>

text \<open>
  Modelled from the spec: the file state.go, with \<^verbatim>\<open>notificationState\<close>,
  \<^verbatim>\<open>silenceState\<close> and their methods \<^verbatim>\<open>Merge\<close>, \<^verbatim>\<open>mergeDelta\<close> and \<^verbatim>\<open>mergeComplete\<close>,
  is not among the sources. Section 4.1 of the specification describes one merge
  skeleton for both stores: for each key of the update the value with the later
  comparison timestamp is kept, and on a tie the receiver keeps its own value. The
  comparison timestamp \<open>ts\<close> is a parameter: \<^verbatim>\<open>Timestamp\<close> for notification entries,
  \<^verbatim>\<open>UpdatedAt\<close> for silences.
\<close>

definition mergeComplete :: "('v \<Rightarrow> time) \<Rightarrow> ('k \<rightharpoonup> 'v) \<Rightarrow> ('k \<rightharpoonup> 'v) \<Rightarrow> ('k \<rightharpoonup> 'v)" where
  "mergeComplete ts st upd =
     (\<lambda>k. case upd k of
             None \<Rightarrow> st k
           | Some v \<Rightarrow>
               (case st k of
                  None \<Rightarrow> Some v
                | Some prev \<Rightarrow> if ts prev < ts v then Some v else Some prev))"

text \<open>
  Modelled from the spec: \<^verbatim>\<open>Merge\<close> applies the update's entries to the receiver in
  place, by the rule above; peer.go ignores what it returns.
\<close>

definition Merge :: "('v \<Rightarrow> time) \<Rightarrow> ('k \<rightharpoonup> 'v) \<Rightarrow> ('k \<rightharpoonup> 'v) \<Rightarrow> ('k \<rightharpoonup> 'v)" where
  "Merge ts st upd = mergeComplete ts st upd"

text \<open>
  Modelled from the spec: \<^verbatim>\<open>mergeDelta\<close> merges like \<^verbatim>\<open>Merge\<close> and returns, beside the
  new state, a new set with only the keys whose stored value changed (a key that was
  absent, or a strictly newer remote value).
\<close>

definition delta_of :: "('v \<Rightarrow> time) \<Rightarrow> ('k \<rightharpoonup> 'v) \<Rightarrow> ('k \<rightharpoonup> 'v) \<Rightarrow> ('k \<rightharpoonup> 'v)" where
  "delta_of ts st upd =
     (\<lambda>k. case upd k of
             None \<Rightarrow> None
           | Some v \<Rightarrow>
               (case st k of
                  None \<Rightarrow> Some v
                | Some prev \<Rightarrow> if ts prev < ts v then Some v else None))"

definition mergeDelta ::
  "('v \<Rightarrow> time) \<Rightarrow> ('k \<rightharpoonup> 'v) \<Rightarrow> ('k \<rightharpoonup> 'v) \<Rightarrow> ('k \<rightharpoonup> 'v) \<times> ('k \<rightharpoonup> 'v)" where
  "mergeDelta ts st upd = (mergeComplete ts st upd, delta_of ts st upd)"

section \<open>NotificationInfos (peer.go)\<close>

text \<open>
  \<^verbatim>\<open>NewNotificationInfos\<close> starts with the state \<^verbatim>\<open>newNotificationState()\<close> gives (state.go;
  taken to be the empty set) and no transport; \<^verbatim>\<open>Register\<close> stores the handle.
\<close>

definition NewNotificationInfos :: NotificationInfos where
  "NewNotificationInfos = \<lparr>ni_st = Map.empty, ni_send = None\<rparr>"

definition NotificationInfos_Register ::
  "notificationState list \<Rightarrow> NotificationInfos \<Rightarrow> NotificationInfos" where
  "NotificationInfos_Register g ni = ni\<lparr>ni_send := Some g\<rparr>"

text \<open>
  The key of an entry is \<^verbatim>\<open>fmt.Sprintf("%x:%s", n.Alert, n.Receiver)\<close>. The rendering of a
  fingerprint under \<^verbatim>\<open>%x\<close> belongs to the packages fmt and model, outside the
  repository: it is the parameter \<open>hex\<close>.
\<close>

definition notification_key :: "(fingerprint \<Rightarrow> string) \<Rightarrow> fingerprint \<Rightarrow> string \<Rightarrow> string" where
  "notification_key hex fp dest = hex fp @ '':'' @ dest"

text \<open>The loop of \<^verbatim>\<open>NotificationInfos.Set\<close> that fills the update, one assignment per argument.\<close>

definition Set_entries :: "(fingerprint \<Rightarrow> string) \<Rightarrow> NotifyInfo list \<Rightarrow> notificationState" where
  "Set_entries hex ns =
     foldl (\<lambda>m n.
              m(notification_key hex (Alert n) (Receiver n) \<mapsto>
                    \<lparr>Resolved = NotifyInfo.Resolved n, Timestamp = NotifyInfo.Timestamp n\<rparr>))
           Map.empty ns"

definition NotificationInfos_Set ::
  "(fingerprint \<Rightarrow> string) \<Rightarrow> NotifyInfo list \<Rightarrow> NotificationInfos \<Rightarrow>
     (error + unit) \<times> NotificationInfos" where
  "NotificationInfos_Set hex ns ni =
     (let update = Set_entries hex ns;
          ni' = ni\<lparr>ni_st := Merge Timestamp (ni_st ni) update\<rparr>
      in case ni_send ni' of
           None \<Rightarrow> (Inl PanicNilGossip, ni')
         | Some sent \<Rightarrow> (Inr (), ni'\<lparr>ni_send := Some (sent @ [update])\<rparr>))"

text \<open>
  \<^verbatim>\<open>NotificationInfos.Get\<close> appends one element per fingerprint: a new \<^verbatim>\<open>NotifyInfo\<close> or
  nil (\<open>None\<close>). It reads \<^verbatim>\<open>ni.st.set\<close> and always returns a nil error.
\<close>

definition NotificationInfos_Get ::
  "(fingerprint \<Rightarrow> string) \<Rightarrow> string \<Rightarrow> fingerprint list \<Rightarrow> NotificationInfos \<Rightarrow>
     error + NotifyInfo option list" where
  "NotificationInfos_Get hex dest fps ni =
     Inr (foldl (\<lambda>res fp.
                   case ni_st ni (notification_key hex fp dest) of
                     Some e \<Rightarrow>
                       res @ [Some \<lparr>Alert = fp, Receiver = dest,
                                     Resolved = Resolved e, Timestamp = Timestamp e\<rparr>]
                   | None \<Rightarrow> res @ [None])
                [] fps)"

text \<open>
  The receive callbacks. \<^verbatim>\<open>decodeNotificationSet\<close> is in state.go, not among the
  sources: it is the parameter \<open>decode\<close>, which gives an error or the decoded set. A
  returned \<^verbatim>\<open>mesh.GossipData\<close> is \<open>None\<close> for nil and \<open>Some d\<close> for the delta \<open>d\<close>;
  \<^verbatim>\<open>len(d.set) == 0\<close> is \<open>d = Map.empty\<close>.
\<close>

definition NotificationInfos_OnGossip ::
  "(byte list \<Rightarrow> error + notificationState) \<Rightarrow> byte list \<Rightarrow> NotificationInfos \<Rightarrow>
     (error + notificationState option) \<times> NotificationInfos" where
  "NotificationInfos_OnGossip decode b ni =
     (case decode b of
        Inl err \<Rightarrow> (Inl err, ni)
      | Inr upd \<Rightarrow>
          (let (st', d) = mergeDelta Timestamp (ni_st ni) upd;
               ni' = ni\<lparr>ni_st := st'\<rparr>
           in if d = Map.empty then (Inr None, ni') else (Inr (Some d), ni')))"

definition NotificationInfos_OnGossipBroadcast ::
  "(byte list \<Rightarrow> error + notificationState) \<Rightarrow> byte list \<Rightarrow> NotificationInfos \<Rightarrow>
     (error + notificationState option) \<times> NotificationInfos" where
  "NotificationInfos_OnGossipBroadcast decode b ni =
     (case decode b of
        Inl err \<Rightarrow> (Inl err, ni)
      | Inr upd \<Rightarrow>
          (let (st', d) = mergeDelta Timestamp (ni_st ni) upd
           in (Inr (Some d), ni\<lparr>ni_st := st'\<rparr>)))"

definition NotificationInfos_OnGossipUnicast ::
  "(byte list \<Rightarrow> error + notificationState) \<Rightarrow> byte list \<Rightarrow> NotificationInfos \<Rightarrow>
     (error + unit) \<times> NotificationInfos" where
  "NotificationInfos_OnGossipUnicast decode b ni =
     (case decode b of
        Inl err \<Rightarrow> (Inl err, ni)
      | Inr upd \<Rightarrow> (Inr (), ni\<lparr>ni_st := mergeComplete Timestamp (ni_st ni) upd\<rparr>))"

section \<open>Silences (peer.go)\<close>

text \<open>The comparison timestamp of a stored pointer: the \<^verbatim>\<open>UpdatedAt\<close> of the object it refers to.\<close>

definition updatedAt_of :: "'m Silence list \<Rightarrow> addr \<Rightarrow> time" where
  "updatedAt_of h a = UpdatedAt (h ! a)"

text \<open>
  \<^verbatim>\<open>NewSilences\<close> starts with the state \<^verbatim>\<open>newSilenceState()\<close> gives (state.go; taken to
  be the empty set) and no transport, on a given heap; \<^verbatim>\<open>Register\<close> stores the handle.
\<close>

definition NewSilences :: "'m Silence list \<Rightarrow> 'm Silences" where
  "NewSilences h = \<lparr>heap = h, s_st = Map.empty, s_send = None\<rparr>"

definition Silences_Register :: "silenceState list \<Rightarrow> 'm Silences \<Rightarrow> 'm Silences" where
  "Silences_Register g s = s\<lparr>s_send := Some g\<rparr>"

text \<open>
  \<^verbatim>\<open>Silences.Set\<close> writes through its argument (\<^verbatim>\<open>sil.ID\<close>, \<^verbatim>\<open>sil.UpdatedAt\<close>), puts
  the pointer itself into the update, merges and broadcasts. \<^verbatim>\<open>time.Now()\<close> and
  \<^verbatim>\<open>uuid.NewV4()\<close> are inputs of the environment: \<open>now\<close> and \<open>newid\<close>.
\<close>

definition Silences_Set ::
  "time \<Rightarrow> uuid \<Rightarrow> addr \<Rightarrow> 'm Silences \<Rightarrow> (error + uuid) \<times> 'm Silences" where
  "Silences_Set now newid sil s =
     (let h1 = (if ID (heap s ! sil) = uuid_Nil
                then (heap s)[sil := (heap s ! sil)\<lparr>ID := newid\<rparr>]
                else heap s);
          h2 = h1[sil := (h1 ! sil)\<lparr>UpdatedAt := now\<rparr>];
          update = [ID (h2 ! sil) \<mapsto> sil];
          s' = s\<lparr>heap := h2, s_st := Merge (updatedAt_of h2) (s_st s) update\<rparr>
      in case s_send s' of
           None \<Rightarrow> (Inl PanicNilGossip, s')
         | Some sent \<Rightarrow> (Inr (ID (h2 ! sil)), s'\<lparr>s_send := Some (sent @ [update])\<rparr>))"

text \<open>
  \<^verbatim>\<open>Silences.Del\<close>. \<^verbatim>\<open>newSil := *sil\<close> copies the stored object; the copy gets its own
  address when \<^verbatim>\<open>&newSil\<close> enters the update.

  Modelled from the spec: \<^verbatim>\<open>(*types.Silence).Init\<close> is in package types, not among the
  sources. The specification calls it a re-validation that fails with an error when the
  derived record is invalid: it is the parameter \<open>Init\<close>, which gives the message of
  the error or \<open>None\<close>, and leaves the record as it is.
\<close>

definition Silences_Del ::
  "('m Silence \<Rightarrow> string option) \<Rightarrow> time \<Rightarrow> uuid \<Rightarrow> 'm Silences \<Rightarrow>
     (error + unit) \<times> 'm Silences" where
  "Silences_Del Init now sid s =
     (case s_st s sid of
        None \<Rightarrow> (Inl ErrNotFound, s)
      | Some sil \<Rightarrow>
          if EndsAt (heap s ! sil) < now then (Inl (Errorf ''silence already ended''), s)
          else
            (let newSil = (heap s ! sil)\<lparr>UpdatedAt := now, EndsAt := now\<rparr>
             in case Init newSil of
                  Some err \<Rightarrow> (Inl (Errorf (''silence init: '' @ err)), s)
                | None \<Rightarrow>
                    (let p = length (heap s);
                         h = heap s @ [newSil];
                         update = [ID newSil \<mapsto> p];
                         s' = s\<lparr>heap := h, s_st := Merge (updatedAt_of h) (s_st s) update\<rparr>
                     in case s_send s' of
                          None \<Rightarrow> (Inl PanicNilGossip, s')
                        | Some sent \<Rightarrow>
                            (Inr (), s'\<lparr>s_send := Some (sent @ [update])\<rparr>))))"

text \<open>\<^verbatim>\<open>Silences.Get\<close> returns the pointer the map holds.\<close>

definition Silences_Get :: "uuid \<Rightarrow> 'm Silences \<Rightarrow> error + addr" where
  "Silences_Get sid s =
     (case s_st s sid of
        None \<Rightarrow> Inl ErrNotFound
      | Some sil \<Rightarrow> Inr sil)"

text \<open>
  \<^verbatim>\<open>Silences.All\<close> ranges over the map and appends each pointer. Go leaves the order of
  the iteration open: \<open>keys\<close> is the order taken, an enumeration of the keys of the map.
\<close>

definition Silences_All :: "uuid list \<Rightarrow> 'm Silences \<Rightarrow> error + addr list" where
  "Silences_All keys s =
     Inr (foldl (\<lambda>res k. case s_st s k of Some sil \<Rightarrow> res @ [sil] | None \<Rightarrow> res) [] keys)"

text \<open>
  The receive callbacks. \<^verbatim>\<open>decodeSilenceSet\<close> is in state.go, not among the sources: it
  is the parameter \<open>decode\<close>. Decoding builds new silence objects, so on success it
  gives the heap with them and the decoded map of pointers.
\<close>

definition Silences_OnGossip ::
  "('m Silence list \<Rightarrow> byte list \<Rightarrow> error + 'm Silence list \<times> silenceState) \<Rightarrow>
     byte list \<Rightarrow> 'm Silences \<Rightarrow> (error + silenceState option) \<times> 'm Silences" where
  "Silences_OnGossip decode b s =
     (case decode (heap s) b of
        Inl err \<Rightarrow> (Inl err, s)
      | Inr (h, upd) \<Rightarrow>
          (let (st', d) = mergeDelta (updatedAt_of h) (s_st s) upd;
               s' = s\<lparr>heap := h, s_st := st'\<rparr>
           in if d = Map.empty then (Inr None, s') else (Inr (Some d), s')))"

definition Silences_OnGossipBroadcast ::
  "('m Silence list \<Rightarrow> byte list \<Rightarrow> error + 'm Silence list \<times> silenceState) \<Rightarrow>
     byte list \<Rightarrow> 'm Silences \<Rightarrow> (error + silenceState option) \<times> 'm Silences" where
  "Silences_OnGossipBroadcast decode b s =
     (case decode (heap s) b of
        Inl err \<Rightarrow> (Inl err, s)
      | Inr (h, upd) \<Rightarrow>
          (let (st', d) = mergeDelta (updatedAt_of h) (s_st s) upd
           in (Inr (Some d), s\<lparr>heap := h, s_st := st'\<rparr>)))"

definition Silences_OnGossipUnicast ::
  "('m Silence list \<Rightarrow> byte list \<Rightarrow> error + 'm Silence list \<times> silenceState) \<Rightarrow>
     byte list \<Rightarrow> 'm Silences \<Rightarrow> (error + unit) \<times> 'm Silences" where
  "Silences_OnGossipUnicast decode b s =
     (case decode (heap s) b of
        Inl err \<Rightarrow> (Inl err, s)
      | Inr (h, upd) \<Rightarrow>
          (Inr (), s\<lparr>heap := h, s_st := mergeComplete (updatedAt_of h) (s_st s) upd\<rparr>))"

text \<open>
  What the store holds for an identifier: the object its pointer refers to. A caller
  that has a pointer \<open>p\<close> can assign through it (\<^verbatim>\<open>p.Comment = ...\<close>, or any other change
  \<open>f\<close> of the object); \<open>write_through\<close> is that assignment.
\<close>

definition stored :: "'m Silences \<Rightarrow> uuid \<rightharpoonup> 'm Silence" where
  "stored s = (\<lambda>k. map_option (\<lambda>p. heap s ! p) (s_st s k))"

definition write_through :: "addr \<Rightarrow> ('m Silence \<Rightarrow> 'm Silence) \<Rightarrow> 'm Silences \<Rightarrow> 'm Silences" where
  "write_through p f s = s\<lparr>heap := (heap s)[p := f (heap s ! p)]\<rparr>"

text \<open>
  One validation, used where a concrete \<open>Init\<close> is needed: a silence whose window ends
  before it starts is invalid.
\<close>

definition window_Init :: "'m Silence \<Rightarrow> string option" where
  "window_Init sil =
     (if EndsAt sil < StartsAt sil then Some ''end time must not be before start time''
      else None)"

section \<open>Lock discipline of the readers\<close>

text \<open>
  What a reader does to the mutex of its store and to the \<^verbatim>\<open>set\<close> map of the store, in
  program order: \<^verbatim>\<open>st.mtx.RLock()\<close>, \<^verbatim>\<open>st.mtx.RUnlock()\<close> (a deferred call runs at
  the return), and a read of the map (an index expression, \<^verbatim>\<open>len\<close>, or one step of
  \<^verbatim>\<open>range\<close>).
\<close>

datatype access = RLock | RUnlock | ReadSet

text \<open>
  \<^verbatim>\<open>Silences.Get\<close> locks, indexes the map and unlocks at the return. \<^verbatim>\<open>Silences.All\<close>
  locks, takes \<^verbatim>\<open>len\<close>, ranges over \<open>n\<close> entries and unlocks. \<^verbatim>\<open>Silences.Mutes\<close>
  locks, ranges over the map until a silence mutes (\<open>n\<close> entries visited) and unlocks.
  \<^verbatim>\<open>NotificationInfos.Get\<close> indexes \<^verbatim>\<open>ni.st.set\<close> once per fingerprint and calls
  neither \<^verbatim>\<open>RLock\<close> nor \<^verbatim>\<open>RUnlock\<close>.
\<close>

definition Silences_Get_accesses :: "access list" where
  "Silences_Get_accesses = [RLock, ReadSet, RUnlock]"

definition Silences_All_accesses :: "nat \<Rightarrow> access list" where
  "Silences_All_accesses n = [RLock, ReadSet] @ replicate n ReadSet @ [RUnlock]"

definition Silences_Mutes_accesses :: "nat \<Rightarrow> access list" where
  "Silences_Mutes_accesses n = [RLock] @ replicate n ReadSet @ [RUnlock]"

definition NotificationInfos_Get_accesses :: "fingerprint list \<Rightarrow> access list" where
  "NotificationInfos_Get_accesses fps = map (\<lambda>fp. ReadSet) fps"

text \<open>
  A sequence of accesses keeps the discipline when every read of the map happens while
  the reader holds the read lock; \<open>held\<close> counts the read locks it holds.
\<close>

fun under_read_lock :: "nat \<Rightarrow> access list \<Rightarrow> bool" where
  "under_read_lock held [] = True"
| "under_read_lock held (RLock # as) = under_read_lock (Suc held) as"
| "under_read_lock held (RUnlock # as) = (0 < held \<and> under_read_lock (held - 1) as)"
| "under_read_lock held (ReadSet # as) = (0 < held \<and> under_read_lock held as)"

section \<open>A rendering of fingerprints\<close>

text \<open>
  One rendering of a fingerprint, used where a concrete \<open>hex\<close> is needed: sixteen
  lower-case hexadecimal digits, most significant first.
\<close>

definition hex_digit :: "nat \<Rightarrow> char" where
  "hex_digit d = ''0123456789abcdef'' ! d"

fun hex_fixed :: "nat \<Rightarrow> nat \<Rightarrow> string" where
  "hex_fixed 0 n = []"
| "hex_fixed (Suc w) n = hex_fixed w (n div 16) @ [hex_digit (n mod 16)]"

definition fingerprint_hex :: "fingerprint \<Rightarrow> string" where
  "fingerprint_hex fp = hex_fixed 16 (unat fp)"

section \<open>Merge: last write wins\<close>

lemma mergeComplete_apply:
  "mergeComplete ts st upd k =
     (case upd k of
        None \<Rightarrow> st k
      | Some v \<Rightarrow>
          (case st k of
             None \<Rightarrow> Some v
           | Some prev \<Rightarrow> if ts prev < ts v then Some v else Some prev))"
  by (simp add: mergeComplete_def)

lemma mergeComplete_twice:
  "mergeComplete ts (mergeComplete ts st upd) upd = mergeComplete ts st upd"
  by (rule ext) (simp add: mergeComplete_apply split: option.splits)

lemma Merge_apply:
  "Merge ts st upd k =
     (case upd k of
        None \<Rightarrow> st k
      | Some v \<Rightarrow>
          (case st k of
             None \<Rightarrow> Some v
           | Some prev \<Rightarrow> if ts prev < ts v then Some v else Some prev))"
  by (simp add: Merge_def mergeComplete_def)

text \<open>
  Claim C1. For every state \<open>S\<close> and update \<open>U\<close>, \<^verbatim>\<open>Merge\<close> keeps for each key the value
  with the later comparison timestamp: a key the update does not have keeps the
  receiver's value, a key the receiver does not have takes the update's, the update's
  value replaces the receiver's when its timestamp is strictly later, and otherwise
  (earlier or equal) the receiver's value stays. Merging the same update a second time
  changes nothing.
\<close>

theorem Merge_last_write_wins_idempotent:
  "(U k = None \<longrightarrow> Merge ts S U k = S k) \<and>
   (S k = None \<longrightarrow> Merge ts S U k = U k) \<and>
   (S k = Some p \<and> U k = Some v \<and> ts p < ts v \<longrightarrow> Merge ts S U k = Some v) \<and>
   (S k = Some p \<and> U k = Some v \<and> ts v \<le> ts p \<longrightarrow> Merge ts S U k = Some p) \<and>
   Merge ts (Merge ts S U) U = Merge ts S U"
  unfolding Merge_def
  by (simp add: mergeComplete_twice) (simp add: mergeComplete_apply split: option.splits)

theorem Merge_last_write_wins_idempotent_witness:
  "Merge fst [1 \<mapsto> (5, False)] [2 \<mapsto> (3, True)] (1::nat) = Some (5::int, False) \<and>
   Merge fst [1 \<mapsto> (5, False)] [2 \<mapsto> (3, True)] (2::nat) = Some (3::int, True) \<and>
   Merge fst [1 \<mapsto> (5, False)] [1 \<mapsto> (7, True)] (1::nat) = Some (7::int, True) \<and>
   Merge fst [1 \<mapsto> (5, False)] [1 \<mapsto> (5, True)] (1::nat) = Some (5::int, False) \<and>
   Merge fst (Merge fst [1 \<mapsto> (5, False)] [1 \<mapsto> (7, True)]) [1 \<mapsto> (7, True)] =
     Merge fst [1::nat \<mapsto> (5::int, False)] [1 \<mapsto> (7, True)]"
  using Merge_last_write_wins_idempotent
          [where ts = fst and S = "[1::nat \<mapsto> (5::int, False)]" and U = "[2 \<mapsto> (3, True)]" and k = 1]
        Merge_last_write_wins_idempotent
          [where ts = fst and S = "[1::nat \<mapsto> (5::int, False)]" and U = "[2 \<mapsto> (3, True)]" and k = 2]
        Merge_last_write_wins_idempotent
          [where ts = fst and S = "[1::nat \<mapsto> (5::int, False)]" and U = "[1 \<mapsto> (7, True)]" and k = 1
             and p = "(5, False)" and v = "(7, True)"]
        Merge_last_write_wins_idempotent
          [where ts = fst and S = "[1::nat \<mapsto> (5::int, False)]" and U = "[1 \<mapsto> (5, True)]" and k = 1
             and p = "(5, False)" and v = "(5, True)"]
  by simp

section \<open>Keys of the notification store\<close>

lemma hex_digit_inj: "a < 16 \<Longrightarrow> b < 16 \<Longrightarrow> hex_digit a = hex_digit b \<Longrightarrow> a = b"
proof -
  assume a: "a < 16" and b: "b < 16" and e: "hex_digit a = hex_digit b"
  have d: "distinct ''0123456789abcdef''" by simp
  have l: "length ''0123456789abcdef'' = 16" by simp
  from a b e d l show ?thesis
    unfolding hex_digit_def by (metis nth_eq_iff_index_eq)
qed

lemma hex_digit_not_colon: "d < 16 \<Longrightarrow> hex_digit d \<noteq> CHR '':''"
proof -
  assume "d < 16"
  then have "hex_digit d \<in> set ''0123456789abcdef''"
    unfolding hex_digit_def by (intro nth_mem) simp
  then show ?thesis by auto
qed

lemma length_hex_fixed: "length (hex_fixed w n) = w"
  by (induction w arbitrary: n) auto

lemma hex_fixed_inj: "hex_fixed w n = hex_fixed w m \<Longrightarrow> n mod 16 ^ w = m mod 16 ^ w"
proof (induction w arbitrary: n m)
  case 0
  then show ?case by simp
next
  case (Suc w)
  from Suc.prems have hi: "hex_fixed w (n div 16) = hex_fixed w (m div 16)"
    and lo: "hex_digit (n mod 16) = hex_digit (m mod 16)"
    by (simp_all add: length_hex_fixed)
  from lo have lo': "n mod 16 = m mod 16"
    by (intro hex_digit_inj) simp_all
  from Suc.IH [OF hi] have hi': "n div 16 mod 16 ^ w = m div 16 mod 16 ^ w" .
  have "n mod 16 ^ Suc w = 16 * (n div 16 mod 16 ^ w) + n mod 16"
    by (simp add: mod_mult2_eq)
  moreover have "m mod 16 ^ Suc w = 16 * (m div 16 mod 16 ^ w) + m mod 16"
    by (simp add: mod_mult2_eq)
  ultimately show ?case using lo' hi' by simp
qed

lemma hex_fixed_no_colon: "CHR '':'' \<notin> set (hex_fixed w n)"
proof (induction w arbitrary: n)
  case 0
  then show ?case by simp
next
  case (Suc w)
  have "hex_digit (n mod 16) \<noteq> CHR '':''"
    by (rule hex_digit_not_colon) simp
  with Suc.IH [of "n div 16"] show ?case by auto
qed

lemma fingerprint_hex_inj: "inj fingerprint_hex"
proof (rule injI)
  fix x y :: fingerprint
  assume "fingerprint_hex x = fingerprint_hex y"
  then have "unat x mod 16 ^ 16 = unat y mod 16 ^ 16"
    unfolding fingerprint_hex_def by (rule hex_fixed_inj)
  moreover have "unat x < 16 ^ 16" "unat y < 16 ^ 16"
    using unsigned_less [of x] unsigned_less [of y] by simp_all
  ultimately have "unat x = unat y" by simp
  then show "x = y" by (simp add: word_unat_eq_iff)
qed

lemma fingerprint_hex_no_colon: "\<forall>fp. CHR '':'' \<notin> set (fingerprint_hex fp)"
  by (simp add: fingerprint_hex_def hex_fixed_no_colon)

lemma takeWhile_upto_sep:
  "c \<notin> set a \<Longrightarrow> takeWhile (\<lambda>x. x \<noteq> c) (a @ c # r) = a"
  by (auto simp: takeWhile_tail)

lemma key_split:
  assumes "c \<notin> set a" and "c \<notin> set b" and "a @ c # r = b @ c # q"
  shows "a = b \<and> r = q"
proof -
  have "takeWhile (\<lambda>x. x \<noteq> c) (a @ c # r) = takeWhile (\<lambda>x. x \<noteq> c) (b @ c # q)"
    using assms(3) by simp
  then have "a = b"
    using takeWhile_upto_sep [OF assms(1), of r] takeWhile_upto_sep [OF assms(2), of q] by simp
  with assms(3) show ?thesis by simp
qed

lemma notification_key_inj:
  assumes "inj hex" and "\<forall>fp. CHR '':'' \<notin> set (hex fp)"
  shows "notification_key hex fp dest = notification_key hex fp' dest' \<longleftrightarrow>
           fp = fp' \<and> dest = dest'"
proof
  assume "notification_key hex fp dest = notification_key hex fp' dest'"
  then have "hex fp @ CHR '':'' # dest = hex fp' @ CHR '':'' # dest'"
    by (simp add: notification_key_def)
  with assms(2) have "hex fp = hex fp' \<and> dest = dest'"
    by (intro key_split) auto
  with assms(1) show "fp = fp' \<and> dest = dest'"
    by (auto dest: injD)
next
  assume "fp = fp' \<and> dest = dest'"
  then show "notification_key hex fp dest = notification_key hex fp' dest'" by simp
qed

lemma Set_entries_snoc:
  "Set_entries hex (ns @ [n]) =
     (Set_entries hex ns)(notification_key hex (Alert n) (Receiver n) \<mapsto>
        \<lparr>Resolved = NotifyInfo.Resolved n, Timestamp = NotifyInfo.Timestamp n\<rparr>)"
  by (simp add: Set_entries_def)

lemma Set_entries_last:
  assumes "inj hex" and "\<forall>fp. CHR '':'' \<notin> set (hex fp)"
  shows "Set_entries hex ns (notification_key hex fp dest) =
           map_option (\<lambda>n. \<lparr>Resolved = NotifyInfo.Resolved n, Timestamp = NotifyInfo.Timestamp n\<rparr>)
             (find (\<lambda>n. Alert n = fp \<and> Receiver n = dest) (rev ns))"
proof (induction ns rule: rev_induct)
  case Nil
  then show ?case by (simp add: Set_entries_def)
next
  case (snoc n ns)
  show ?case
    using snoc.IH notification_key_inj [OF assms, of "Alert n" "Receiver n" fp dest]
    by (auto simp: Set_entries_snoc)
qed


lemma dom_Set_entries:
  "dom (Set_entries hex ns) = (\<lambda>n. notification_key hex (Alert n) (Receiver n)) ` set ns"
proof (induction ns rule: rev_induct)
  case Nil
  then show ?case by (simp add: Set_entries_def)
next
  case (snoc n ns)
  have "dom (Set_entries hex (ns @ [n])) =
          insert (notification_key hex (Alert n) (Receiver n)) (dom (Set_entries hex ns))"
    by (simp only: Set_entries_snoc dom_fun_upd) simp
  with snoc.IH show ?case by simp
qed

section \<open>NotificationInfos.Set: a batch with duplicates\<close>

text \<open>
  Claim C10. \<^verbatim>\<open>NotificationInfos.Set\<close> builds one update from its arguments, merges it
  and broadcasts it, and returns a nil error. When the rendering of fingerprints is
  injective and free of colons (hexadecimal digits), the update holds, for every pair
  of fingerprint and receiver, the entry of the last argument with that pair: an earlier
  argument with the same pair is overwritten, and a pair no argument has is absent. The
  keys of the update are the keys of the arguments and no others. The transport is
  registered, as every broadcast needs it to be.
\<close>

theorem NotificationInfos_Set_last_duplicate_wins:
  assumes "inj hex" and "\<forall>fp. CHR '':'' \<notin> set (hex fp)" and "ni_send ni = Some sent"
  shows "NotificationInfos_Set hex ns ni =
           (Inr (), ni\<lparr>ni_st := Merge Timestamp (ni_st ni) (Set_entries hex ns),
                        ni_send := Some (sent @ [Set_entries hex ns])\<rparr>) \<and>
         (\<forall>fp dest.
            Set_entries hex ns (notification_key hex fp dest) =
              map_option
                (\<lambda>n. \<lparr>Resolved = NotifyInfo.Resolved n, Timestamp = NotifyInfo.Timestamp n\<rparr>)
                (find (\<lambda>n. Alert n = fp \<and> Receiver n = dest) (rev ns))) \<and>
         dom (Set_entries hex ns) =
           (\<lambda>n. notification_key hex (Alert n) (Receiver n)) ` set ns"
proof (intro conjI)
  show "dom (Set_entries hex ns) =
           (\<lambda>n. notification_key hex (Alert n) (Receiver n)) ` set ns"
    by (rule dom_Set_entries)
  show "NotificationInfos_Set hex ns ni =
           (Inr (), ni\<lparr>ni_st := Merge Timestamp (ni_st ni) (Set_entries hex ns),
                        ni_send := Some (sent @ [Set_entries hex ns])\<rparr>)"
    using assms(3) by (simp add: NotificationInfos_Set_def Let_def)
  show "\<forall>fp dest.
            Set_entries hex ns (notification_key hex fp dest) =
              map_option
                (\<lambda>n. \<lparr>Resolved = NotifyInfo.Resolved n, Timestamp = NotifyInfo.Timestamp n\<rparr>)
                (find (\<lambda>n. Alert n = fp \<and> Receiver n = dest) (rev ns))"
    using Set_entries_last [OF assms(1,2)] by blast
qed

theorem NotificationInfos_Set_last_duplicate_wins_witness:
  "fst (NotificationInfos_Set fingerprint_hex
          [\<lparr>Alert = 1, Receiver = ''team-a'', Resolved = False, Timestamp = 10\<rparr>,
           \<lparr>Alert = 2, Receiver = ''team-a'', Resolved = False, Timestamp = 15\<rparr>,
           \<lparr>Alert = 1, Receiver = ''team-a'', Resolved = True, Timestamp = 20\<rparr>]
          (NotificationInfos_Register [] NewNotificationInfos)) = Inr () \<and>
   ni_send (snd (NotificationInfos_Set fingerprint_hex
          [\<lparr>Alert = 1, Receiver = ''team-a'', Resolved = False, Timestamp = 10\<rparr>,
           \<lparr>Alert = 2, Receiver = ''team-a'', Resolved = False, Timestamp = 15\<rparr>,
           \<lparr>Alert = 1, Receiver = ''team-a'', Resolved = True, Timestamp = 20\<rparr>]
          (NotificationInfos_Register [] NewNotificationInfos))) =
     Some [Set_entries fingerprint_hex
          [\<lparr>Alert = 1, Receiver = ''team-a'', Resolved = False, Timestamp = 10\<rparr>,
           \<lparr>Alert = 2, Receiver = ''team-a'', Resolved = False, Timestamp = 15\<rparr>,
           \<lparr>Alert = 1, Receiver = ''team-a'', Resolved = True, Timestamp = 20\<rparr>]] \<and>
   Set_entries fingerprint_hex
     [\<lparr>Alert = 1, Receiver = ''team-a'', Resolved = False, Timestamp = 10\<rparr>,
      \<lparr>Alert = 2, Receiver = ''team-a'', Resolved = False, Timestamp = 15\<rparr>,
      \<lparr>Alert = 1, Receiver = ''team-a'', Resolved = True, Timestamp = 20\<rparr>]
     (notification_key fingerprint_hex 1 ''team-a'') =
   Some \<lparr>Resolved = True, Timestamp = 20\<rparr> \<and>
   Set_entries fingerprint_hex
     [\<lparr>Alert = 1, Receiver = ''team-a'', Resolved = False, Timestamp = 10\<rparr>,
      \<lparr>Alert = 2, Receiver = ''team-a'', Resolved = False, Timestamp = 15\<rparr>,
      \<lparr>Alert = 1, Receiver = ''team-a'', Resolved = True, Timestamp = 20\<rparr>]
     (notification_key fingerprint_hex 3 ''team-a'') = None"
  using NotificationInfos_Set_last_duplicate_wins
          [OF fingerprint_hex_inj fingerprint_hex_no_colon,
           where ni = "NotificationInfos_Register [] NewNotificationInfos" and sent = "[]"
             and ns = "[\<lparr>Alert = 1, Receiver = ''team-a'', Resolved = False, Timestamp = 10\<rparr>,
      \<lparr>Alert = 2, Receiver = ''team-a'', Resolved = False, Timestamp = 15\<rparr>,
      \<lparr>Alert = 1, Receiver = ''team-a'', Resolved = True, Timestamp = 20\<rparr>]"]
  by (simp add: NotificationInfos_Register_def NewNotificationInfos_def)

section \<open>NotificationInfos.Get: one result per fingerprint\<close>

lemma foldl_snoc_map:
  "foldl (\<lambda>res x. case f x of Some y \<Rightarrow> res @ [Some (g x y)] | None \<Rightarrow> res @ [None]) acc xs =
     acc @ map (\<lambda>x. case f x of Some y \<Rightarrow> Some (g x y) | None \<Rightarrow> None) xs"
  by (induction xs arbitrary: acc) (auto split: option.splits)

lemma NotificationInfos_Get_map:
  "NotificationInfos_Get hex dest fps ni =
     Inr (map (\<lambda>fp. case ni_st ni (notification_key hex fp dest) of
                       Some e \<Rightarrow> Some \<lparr>Alert = fp, Receiver = dest,
                                        Resolved = Resolved e, Timestamp = Timestamp e\<rparr>
                     | None \<Rightarrow> None) fps)"
  unfolding NotificationInfos_Get_def
  using foldl_snoc_map [where f = "\<lambda>fp. ni_st ni (notification_key hex fp dest)"
      and g = "\<lambda>fp e. \<lparr>Alert = fp, Receiver = dest, Resolved = Resolved e, Timestamp = Timestamp e\<rparr>"
      and acc = "[]" and xs = fps]
  by simp

text \<open>
  Claim C6. For every receiver and every sequence of fingerprints,
  \<^verbatim>\<open>NotificationInfos.Get\<close> returns, with a nil error, a list as long as the sequence;
  position \<open>i\<close> holds the entry stored under the key of fingerprint \<open>i\<close> and the
  receiver, as a \<^verbatim>\<open>NotifyInfo\<close> with that fingerprint and receiver, or nil when the
  store has no such key.
\<close>

theorem NotificationInfos_Get_aligned:
  "\<exists>res. NotificationInfos_Get hex dest fps ni = Inr res \<and>
         length res = length fps \<and>
         (\<forall>i < length fps.
            res ! i =
              (case ni_st ni (notification_key hex (fps ! i) dest) of
                 Some e \<Rightarrow> Some \<lparr>Alert = fps ! i, Receiver = dest,
                                  Resolved = Resolved e, Timestamp = Timestamp e\<rparr>
               | None \<Rightarrow> None))"
  by (simp add: NotificationInfos_Get_map)

theorem NotificationInfos_Get_aligned_witness:
  "\<exists>res. NotificationInfos_Get fingerprint_hex ''team-a'' [1, 2]
            (snd (NotificationInfos_Set fingerprint_hex
                    [\<lparr>Alert = 1, Receiver = ''team-a'', Resolved = False, Timestamp = 10\<rparr>]
                    (NotificationInfos_Register [] NewNotificationInfos))) = Inr res \<and>
         length res = 2 \<and>
         res ! 0 = Some \<lparr>Alert = 1, Receiver = ''team-a'', Resolved = False, Timestamp = 10\<rparr> \<and>
         res ! 1 = None"
proof -
  let ?ni = "snd (NotificationInfos_Set fingerprint_hex
                    [\<lparr>Alert = 1, Receiver = ''team-a'', Resolved = False, Timestamp = 10\<rparr>]
                    (NotificationInfos_Register [] NewNotificationInfos))"
  have k: "notification_key fingerprint_hex 2 ''team-a'' \<noteq>
           notification_key fingerprint_hex 1 ''team-a''"
    by (simp add: notification_key_inj [OF fingerprint_hex_inj fingerprint_hex_no_colon])
  have st: "ni_st ?ni =
              Merge Timestamp Map.empty
                [notification_key fingerprint_hex 1 ''team-a'' \<mapsto>
                   \<lparr>Resolved = False, Timestamp = 10\<rparr>]"
    by (simp add: NotificationInfos_Set_def NotificationInfos_Register_def
        NewNotificationInfos_def Set_entries_def Let_def)
  have s1: "ni_st ?ni (notification_key fingerprint_hex 1 ''team-a'') =
              Some \<lparr>Resolved = False, Timestamp = 10\<rparr>"
    unfolding st by (simp add: Merge_apply)
  have s2: "ni_st ?ni (notification_key fingerprint_hex 2 ''team-a'') = None"
    unfolding st using k by (simp add: Merge_apply)
  obtain res where
    r: "NotificationInfos_Get fingerprint_hex ''team-a'' [1, 2] ?ni = Inr res"
    and l: "length res = length [1 :: fingerprint, 2]"
    and a: "\<forall>i < length [1 :: fingerprint, 2].
              res ! i =
                (case ni_st ?ni (notification_key fingerprint_hex ([1, 2] ! i) ''team-a'') of
                   Some e \<Rightarrow> Some \<lparr>Alert = [1, 2] ! i, Receiver = ''team-a'',
                                    Resolved = Resolved e, Timestamp = Timestamp e\<rparr>
                 | None \<Rightarrow> None)"
    using NotificationInfos_Get_aligned [of fingerprint_hex "''team-a''" "[1, 2]" ?ni]
    by blast
  from a [rule_format, of 0] s1
  have "res ! 0 = Some \<lparr>Alert = 1, Receiver = ''team-a'', Resolved = False, Timestamp = 10\<rparr>"
    by simp
  moreover from a [rule_format, of 1] s2 have "res ! 1 = None"
    by simp
  ultimately show ?thesis using r l by simp
qed

section \<open>The receive callbacks\<close>

text \<open>
  Claim C8. When the payload does not decode, each of \<^verbatim>\<open>OnGossip\<close>,
  \<^verbatim>\<open>OnGossipBroadcast\<close> and \<^verbatim>\<open>OnGossipUnicast\<close>, of both stores, returns the
  decoder's error to its caller and leaves the state as it was: nothing is merged, and
  the outcome is a returned error, not a panic.
\<close>

theorem decode_error_propagated:
  "(decode b = Inl err \<longrightarrow>
      NotificationInfos_OnGossip decode b ni = (Inl err, ni) \<and>
      NotificationInfos_OnGossipBroadcast decode b ni = (Inl err, ni) \<and>
      NotificationInfos_OnGossipUnicast decode b ni = (Inl err, ni)) \<and>
   (sdecode (heap s) b = Inl serr \<longrightarrow>
      Silences_OnGossip sdecode b s = (Inl serr, s) \<and>
      Silences_OnGossipBroadcast sdecode b s = (Inl serr, s) \<and>
      Silences_OnGossipUnicast sdecode b s = (Inl serr, s))"
  by (simp add: NotificationInfos_OnGossip_def NotificationInfos_OnGossipBroadcast_def
      NotificationInfos_OnGossipUnicast_def Silences_OnGossip_def
      Silences_OnGossipBroadcast_def Silences_OnGossipUnicast_def)

theorem decode_error_propagated_witness:
  "NotificationInfos_OnGossip (\<lambda>b. Inl (DecodeError ''unexpected EOF'')) [255]
     \<lparr>ni_st = [''00:team-a'' \<mapsto> \<lparr>Resolved = False, Timestamp = 5\<rparr>], ni_send = None\<rparr> =
     (Inl (DecodeError ''unexpected EOF''),
      \<lparr>ni_st = [''00:team-a'' \<mapsto> \<lparr>Resolved = False, Timestamp = 5\<rparr>], ni_send = None\<rparr>) \<and>
   NotificationInfos_OnGossipBroadcast (\<lambda>b. Inl (DecodeError ''unexpected EOF'')) [255]
     \<lparr>ni_st = [''00:team-a'' \<mapsto> \<lparr>Resolved = False, Timestamp = 5\<rparr>], ni_send = None\<rparr> =
     (Inl (DecodeError ''unexpected EOF''),
      \<lparr>ni_st = [''00:team-a'' \<mapsto> \<lparr>Resolved = False, Timestamp = 5\<rparr>], ni_send = None\<rparr>) \<and>
   NotificationInfos_OnGossipUnicast (\<lambda>b. Inl (DecodeError ''unexpected EOF'')) [255]
     \<lparr>ni_st = [''00:team-a'' \<mapsto> \<lparr>Resolved = False, Timestamp = 5\<rparr>], ni_send = None\<rparr> =
     (Inl (DecodeError ''unexpected EOF''),
      \<lparr>ni_st = [''00:team-a'' \<mapsto> \<lparr>Resolved = False, Timestamp = 5\<rparr>], ni_send = None\<rparr>) \<and>
   Silences_OnGossip (\<lambda>h b. Inl (DecodeError ''unexpected EOF'')) [255]
     \<lparr>heap = ([] :: unit Silence list), s_st = Map.empty, s_send = None\<rparr> =
     (Inl (DecodeError ''unexpected EOF''),
      \<lparr>heap = [], s_st = Map.empty, s_send = None\<rparr>) \<and>
   Silences_OnGossipBroadcast (\<lambda>h b. Inl (DecodeError ''unexpected EOF'')) [255]
     \<lparr>heap = ([] :: unit Silence list), s_st = Map.empty, s_send = None\<rparr> =
     (Inl (DecodeError ''unexpected EOF''),
      \<lparr>heap = [], s_st = Map.empty, s_send = None\<rparr>) \<and>
   Silences_OnGossipUnicast (\<lambda>h b. Inl (DecodeError ''unexpected EOF'')) [255]
     \<lparr>heap = ([] :: unit Silence list), s_st = Map.empty, s_send = None\<rparr> =
     (Inl (DecodeError ''unexpected EOF''),
      \<lparr>heap = [], s_st = Map.empty, s_send = None\<rparr>)"
  using decode_error_propagated
          [where decode = "\<lambda>b. Inl (DecodeError ''unexpected EOF'')" and b = "[255]"
             and err = "DecodeError ''unexpected EOF''"
             and ni = "\<lparr>ni_st = [''00:team-a'' \<mapsto> \<lparr>Resolved = False, Timestamp = 5\<rparr>], ni_send = None\<rparr>"
             and sdecode = "\<lambda>h b. Inl (DecodeError ''unexpected EOF'')"
             and serr = "DecodeError ''unexpected EOF''"
             and s = "\<lparr>heap = ([] :: unit Silence list), s_st = Map.empty, s_send = None\<rparr>"]
  by simp

lemma delta_of_apply:
  "delta_of ts st upd k =
     (case upd k of
        None \<Rightarrow> None
      | Some v \<Rightarrow>
          (case st k of
             None \<Rightarrow> Some v
           | Some prev \<Rightarrow> if ts prev < ts v then Some v else None))"
  by (simp add: delta_of_def)

lemma delta_of_empty_iff:
  "delta_of ts st upd = Map.empty \<longleftrightarrow>
     (\<forall>k v. upd k = Some v \<longrightarrow> (\<exists>prev. st k = Some prev \<and> \<not> ts prev < ts v))"
proof
  assume e: "delta_of ts st upd = Map.empty"
  show "\<forall>k v. upd k = Some v \<longrightarrow> (\<exists>prev. st k = Some prev \<and> \<not> ts prev < ts v)"
  proof (intro allI impI)
    fix k v
    assume u: "upd k = Some v"
    from e have "delta_of ts st upd k = None" by simp
    with u show "\<exists>prev. st k = Some prev \<and> \<not> ts prev < ts v"
      by (cases "st k") (simp_all add: delta_of_apply split: if_splits)
  qed
next
  assume a: "\<forall>k v. upd k = Some v \<longrightarrow> (\<exists>prev. st k = Some prev \<and> \<not> ts prev < ts v)"
  show "delta_of ts st upd = Map.empty"
  proof (rule ext)
    fix k
    show "delta_of ts st upd k = None"
    proof (cases "upd k")
      case None
      then show ?thesis by (simp add: delta_of_apply)
    next
      case (Some v)
      with a obtain prev where "st k = Some prev" and "\<not> ts prev < ts v" by blast
      with Some show ?thesis by (simp add: delta_of_apply)
    qed
  qed
qed

text \<open>
  Claim C3 says that on an empty delta \<^verbatim>\<open>OnGossipBroadcast\<close> returns nothing, as
  \<^verbatim>\<open>OnGossip\<close> does. It does not: when a fragment repeats what the store already has,
  \<^verbatim>\<open>OnGossip\<close> returns nil and \<^verbatim>\<open>OnGossipBroadcast\<close> returns the empty delta.
\<close>

theorem OnGossipBroadcast_differs_counterexample:
  "snd (mergeDelta Timestamp [''00:team-a'' \<mapsto> \<lparr>Resolved = False, Timestamp = 5\<rparr>]
          [''00:team-a'' \<mapsto> \<lparr>Resolved = False, Timestamp = 5\<rparr>]) = Map.empty \<and>
   fst (NotificationInfos_OnGossip
          (\<lambda>b. Inr [''00:team-a'' \<mapsto> \<lparr>Resolved = False, Timestamp = 5\<rparr>]) [1, 2]
          \<lparr>ni_st = [''00:team-a'' \<mapsto> \<lparr>Resolved = False, Timestamp = 5\<rparr>], ni_send = Some []\<rparr>) =
     Inr None \<and>
   fst (NotificationInfos_OnGossipBroadcast
          (\<lambda>b. Inr [''00:team-a'' \<mapsto> \<lparr>Resolved = False, Timestamp = 5\<rparr>]) [1, 2]
          \<lparr>ni_st = [''00:team-a'' \<mapsto> \<lparr>Resolved = False, Timestamp = 5\<rparr>], ni_send = Some []\<rparr>) =
     Inr (Some Map.empty)"
proof -
  have d: "delta_of Timestamp [''00:team-a'' \<mapsto> \<lparr>Resolved = False, Timestamp = 5\<rparr>]
             [''00:team-a'' \<mapsto> \<lparr>Resolved = False, Timestamp = 5\<rparr>] = Map.empty"
    by (simp add: delta_of_empty_iff)
  show ?thesis
    by (simp add: NotificationInfos_OnGossip_def NotificationInfos_OnGossipBroadcast_def
        mergeDelta_def d)
qed

text \<open>
  Claim C3, amended. For every inbound fragment that decodes and whose merge produces an
  empty delta, \<^verbatim>\<open>OnGossip\<close> returns nil (nothing to relay), while
  \<^verbatim>\<open>OnGossipBroadcast\<close> returns the empty delta itself, present and not nil; both
  leave the store in the same merged state. This holds for both stores.
\<close>

theorem OnGossipBroadcast_returns_empty_delta:
  "(decode b = Inr upd \<and> snd (mergeDelta Timestamp (ni_st ni) upd) = Map.empty \<longrightarrow>
      NotificationInfos_OnGossip decode b ni =
        (Inr None, ni\<lparr>ni_st := fst (mergeDelta Timestamp (ni_st ni) upd)\<rparr>) \<and>
      NotificationInfos_OnGossipBroadcast decode b ni =
        (Inr (Some Map.empty), ni\<lparr>ni_st := fst (mergeDelta Timestamp (ni_st ni) upd)\<rparr>)) \<and>
   (sdecode (heap s) b = Inr (h, supd) \<and>
    snd (mergeDelta (updatedAt_of h) (s_st s) supd) = Map.empty \<longrightarrow>
      Silences_OnGossip sdecode b s =
        (Inr None, s\<lparr>heap := h, s_st := fst (mergeDelta (updatedAt_of h) (s_st s) supd)\<rparr>) \<and>
      Silences_OnGossipBroadcast sdecode b s =
        (Inr (Some Map.empty),
         s\<lparr>heap := h, s_st := fst (mergeDelta (updatedAt_of h) (s_st s) supd)\<rparr>))"
  by (simp add: NotificationInfos_OnGossip_def NotificationInfos_OnGossipBroadcast_def
      Silences_OnGossip_def Silences_OnGossipBroadcast_def mergeDelta_def)

theorem OnGossipBroadcast_returns_empty_delta_witness:
  "NotificationInfos_OnGossip
     (\<lambda>b. Inr [''00:team-a'' \<mapsto> \<lparr>Resolved = False, Timestamp = 5\<rparr>]) [1, 2]
     \<lparr>ni_st = [''00:team-a'' \<mapsto> \<lparr>Resolved = True, Timestamp = 5\<rparr>], ni_send = None\<rparr> =
     (Inr None,
      \<lparr>ni_st = fst (mergeDelta Timestamp [''00:team-a'' \<mapsto> \<lparr>Resolved = True, Timestamp = 5\<rparr>]
                 [''00:team-a'' \<mapsto> \<lparr>Resolved = False, Timestamp = 5\<rparr>]),
        ni_send = None\<rparr>) \<and>
   NotificationInfos_OnGossipBroadcast
     (\<lambda>b. Inr [''00:team-a'' \<mapsto> \<lparr>Resolved = False, Timestamp = 5\<rparr>]) [1, 2]
     \<lparr>ni_st = [''00:team-a'' \<mapsto> \<lparr>Resolved = True, Timestamp = 5\<rparr>], ni_send = None\<rparr> =
     (Inr (Some Map.empty),
      \<lparr>ni_st = fst (mergeDelta Timestamp [''00:team-a'' \<mapsto> \<lparr>Resolved = True, Timestamp = 5\<rparr>]
                 [''00:team-a'' \<mapsto> \<lparr>Resolved = False, Timestamp = 5\<rparr>]),
        ni_send = None\<rparr>) \<and>
   Silences_OnGossip (\<lambda>h b. Inr (h, Map.empty)) [1, 2]
     \<lparr>heap = ([] :: unit Silence list), s_st = Map.empty, s_send = None\<rparr> =
     (Inr None,
      \<lparr>heap = [], s_st = fst (mergeDelta (updatedAt_of ([] :: unit Silence list)) Map.empty Map.empty),
        s_send = None\<rparr>) \<and>
   Silences_OnGossipBroadcast (\<lambda>h b. Inr (h, Map.empty)) [1, 2]
     \<lparr>heap = ([] :: unit Silence list), s_st = Map.empty, s_send = None\<rparr> =
     (Inr (Some Map.empty),
      \<lparr>heap = [], s_st = fst (mergeDelta (updatedAt_of ([] :: unit Silence list)) Map.empty Map.empty),
        s_send = None\<rparr>)"
proof -
  have d: "snd (mergeDelta Timestamp [''00:team-a'' \<mapsto> \<lparr>Resolved = True, Timestamp = 5\<rparr>]
             [''00:team-a'' \<mapsto> \<lparr>Resolved = False, Timestamp = 5\<rparr>]) = Map.empty"
    by (simp add: mergeDelta_def delta_of_empty_iff)
  have e: "snd (mergeDelta (updatedAt_of ([] :: unit Silence list)) (Map.empty :: silenceState) Map.empty) = Map.empty"
    by (simp add: mergeDelta_def delta_of_empty_iff)
  show ?thesis
    using d e
      OnGossipBroadcast_returns_empty_delta
        [where decode = "\<lambda>b. Inr [''00:team-a'' \<mapsto> \<lparr>Resolved = False, Timestamp = 5\<rparr>]"
           and b = "[1, 2]" and upd = "[''00:team-a'' \<mapsto> \<lparr>Resolved = False, Timestamp = 5\<rparr>]"
           and ni = "\<lparr>ni_st = [''00:team-a'' \<mapsto> \<lparr>Resolved = True, Timestamp = 5\<rparr>], ni_send = None\<rparr>"
           and sdecode = "\<lambda>h b. Inr (h, Map.empty)" and h = "[]" and supd = Map.empty
           and s = "\<lparr>heap = ([] :: unit Silence list), s_st = Map.empty, s_send = None\<rparr>"]
    by simp
qed


section \<open>Silences.Del\<close>

lemma Silences_Del_ends:
  assumes "s_st s sid = Some sil" and "sil < length (heap s)" and "ID (heap s ! sil) = sid"
    and "\<not> EndsAt (heap s ! sil) < now" and "UpdatedAt (heap s ! sil) < now"
    and "Init ((heap s ! sil)\<lparr>UpdatedAt := now, EndsAt := now\<rparr>) = None"
    and "s_send s = Some sent"
  shows "fst (Silences_Del Init now sid s) = Inr () \<and>
         stored (snd (Silences_Del Init now sid s)) sid =
           Some ((heap s ! sil)\<lparr>UpdatedAt := now, EndsAt := now\<rparr>)"
  using assms
  by (simp add: Silences_Del_def Let_def stored_def Merge_apply updatedAt_of_def nth_append)

text \<open>
  Claim C2. \<^verbatim>\<open>Silences.Del\<close> fails with \<^verbatim>\<open>ErrNotFound\<close> when the identifier is absent
  from the store, and with the error "silence already ended" when the stored silence's
  \<^verbatim>\<open>EndsAt\<close> is before now. Otherwise it copies the stored silence, sets \<^verbatim>\<open>UpdatedAt\<close> and
  \<^verbatim>\<open>EndsAt\<close> of the copy to now and validates the copy: an invalid copy fails with
  the error "silence init: ..."; a valid one is merged into the store as a one-entry
  update and broadcast, and \<^verbatim>\<open>Del\<close> returns nil. Every returned error leaves the state
  as it was. When the stored silence was updated before now and is stored under its own
  identifier, the store then holds the ended copy.
\<close>

theorem Silences_Del_outcomes:
  "(s_st s sid = None \<longrightarrow> Silences_Del Init now sid s = (Inl ErrNotFound, s)) \<and>
   (s_st s sid = Some sil \<and> EndsAt (heap s ! sil) < now \<longrightarrow>
      Silences_Del Init now sid s = (Inl (Errorf ''silence already ended''), s)) \<and>
   (s_st s sid = Some sil \<and> \<not> EndsAt (heap s ! sil) < now \<and>
    Init ((heap s ! sil)\<lparr>UpdatedAt := now, EndsAt := now\<rparr>) = Some msg \<longrightarrow>
      Silences_Del Init now sid s = (Inl (Errorf (''silence init: '' @ msg)), s)) \<and>
   (s_st s sid = Some sil \<and> \<not> EndsAt (heap s ! sil) < now \<and>
    Init ((heap s ! sil)\<lparr>UpdatedAt := now, EndsAt := now\<rparr>) = None \<and>
    s_send s = Some sent \<longrightarrow>
      Silences_Del Init now sid s =
        (Inr (),
         s\<lparr>heap := heap s @ [(heap s ! sil)\<lparr>UpdatedAt := now, EndsAt := now\<rparr>],
           s_st := Merge (updatedAt_of (heap s @ [(heap s ! sil)\<lparr>UpdatedAt := now, EndsAt := now\<rparr>]))
                     (s_st s) [ID (heap s ! sil) \<mapsto> length (heap s)],
           s_send := Some (sent @ [[ID (heap s ! sil) \<mapsto> length (heap s)]])\<rparr>)) \<and>
   (\<forall>e. fst (Silences_Del Init now sid s) = Inl e \<and> e \<noteq> PanicNilGossip \<longrightarrow>
      snd (Silences_Del Init now sid s) = s) \<and>
   (s_st s sid = Some sil \<and> sil < length (heap s) \<and> ID (heap s ! sil) = sid \<and>
    \<not> EndsAt (heap s ! sil) < now \<and> UpdatedAt (heap s ! sil) < now \<and>
    Init ((heap s ! sil)\<lparr>UpdatedAt := now, EndsAt := now\<rparr>) = None \<and>
    s_send s = Some sent \<longrightarrow>
      stored (snd (Silences_Del Init now sid s)) sid =
        Some ((heap s ! sil)\<lparr>UpdatedAt := now, EndsAt := now\<rparr>))"
proof -
  have "\<forall>e. fst (Silences_Del Init now sid s) = Inl e \<and> e \<noteq> PanicNilGossip \<longrightarrow>
          snd (Silences_Del Init now sid s) = s"
    by (auto simp: Silences_Del_def Let_def split: option.splits)
  moreover have "s_st s sid = None \<longrightarrow> Silences_Del Init now sid s = (Inl ErrNotFound, s)"
    by (simp add: Silences_Del_def)
  moreover have "s_st s sid = Some sil \<and> EndsAt (heap s ! sil) < now \<longrightarrow>
      Silences_Del Init now sid s = (Inl (Errorf ''silence already ended''), s)"
    by (simp add: Silences_Del_def)
  moreover have "s_st s sid = Some sil \<and> \<not> EndsAt (heap s ! sil) < now \<and>
    Init ((heap s ! sil)\<lparr>UpdatedAt := now, EndsAt := now\<rparr>) = Some msg \<longrightarrow>
      Silences_Del Init now sid s = (Inl (Errorf (''silence init: '' @ msg)), s)"
    by (simp add: Silences_Del_def Let_def)
  moreover have "s_st s sid = Some sil \<and> \<not> EndsAt (heap s ! sil) < now \<and>
    Init ((heap s ! sil)\<lparr>UpdatedAt := now, EndsAt := now\<rparr>) = None \<and>
    s_send s = Some sent \<longrightarrow>
      Silences_Del Init now sid s =
        (Inr (),
         s\<lparr>heap := heap s @ [(heap s ! sil)\<lparr>UpdatedAt := now, EndsAt := now\<rparr>],
           s_st := Merge (updatedAt_of (heap s @ [(heap s ! sil)\<lparr>UpdatedAt := now, EndsAt := now\<rparr>]))
                     (s_st s) [ID (heap s ! sil) \<mapsto> length (heap s)],
           s_send := Some (sent @ [[ID (heap s ! sil) \<mapsto> length (heap s)]])\<rparr>)"
    by (simp add: Silences_Del_def Let_def)
  moreover have "s_st s sid = Some sil \<and> sil < length (heap s) \<and> ID (heap s ! sil) = sid \<and>
    \<not> EndsAt (heap s ! sil) < now \<and> UpdatedAt (heap s ! sil) < now \<and>
    Init ((heap s ! sil)\<lparr>UpdatedAt := now, EndsAt := now\<rparr>) = None \<and>
    s_send s = Some sent \<longrightarrow>
      stored (snd (Silences_Del Init now sid s)) sid =
        Some ((heap s ! sil)\<lparr>UpdatedAt := now, EndsAt := now\<rparr>)"
  proof (intro impI, elim conjE)
    assume "s_st s sid = Some sil" "sil < length (heap s)" "ID (heap s ! sil) = sid"
      "\<not> EndsAt (heap s ! sil) < now" "UpdatedAt (heap s ! sil) < now"
      "Init ((heap s ! sil)\<lparr>UpdatedAt := now, EndsAt := now\<rparr>) = None" "s_send s = Some sent"
    then show "stored (snd (Silences_Del Init now sid s)) sid =
        Some ((heap s ! sil)\<lparr>UpdatedAt := now, EndsAt := now\<rparr>)"
      by (rule conjunct2 [OF Silences_Del_ends])
  qed
  ultimately show ?thesis
    by - (intro conjI, assumption+)
qed

theorem Silences_Del_outcomes_witness:
  "(let x0 = \<lparr>ID = 7, Matchers = [(''alertname'', ''Foo'')], StartsAt = 100, EndsAt = 200,
              UpdatedAt = 90, CreatedBy = ''ops'', Comment = ''maintenance''\<rparr>;
        s0 = \<lparr>heap = [x0], s_st = [7 \<mapsto> 0], s_send = Some []\<rparr>
    in Silences_Del window_Init 150 8 s0 = (Inl ErrNotFound, s0) \<and>
       Silences_Del window_Init 250 7 s0 = (Inl (Errorf ''silence already ended''), s0) \<and>
       Silences_Del window_Init 50 7 s0 =
         (Inl (Errorf ''silence init: end time must not be before start time''), s0) \<and>
       Silences_Del window_Init 150 7 s0 =
         (Inr (),
          \<lparr>heap = [x0, x0\<lparr>UpdatedAt := 150, EndsAt := 150\<rparr>],
            s_st = Merge (updatedAt_of [x0, x0\<lparr>UpdatedAt := 150, EndsAt := 150\<rparr>])
                     [7 \<mapsto> 0] [7 \<mapsto> 1],
            s_send = Some [[7 \<mapsto> 1]]\<rparr>) \<and>
       stored (snd (Silences_Del window_Init 150 7 s0)) 7 =
         Some (x0\<lparr>UpdatedAt := 150, EndsAt := 150\<rparr>))"
proof -
  let ?x0 = "\<lparr>ID = 7 :: uuid, Matchers = [(''alertname'', ''Foo'')], StartsAt = 100,
              EndsAt = 200, UpdatedAt = 90, CreatedBy = ''ops'', Comment = ''maintenance''\<rparr>"
  let ?s0 = "\<lparr>heap = [?x0], s_st = [7 \<mapsto> 0], s_send = Some []\<rparr>"
  have 1: "Silences_Del window_Init 150 8 ?s0 = (Inl ErrNotFound, ?s0)"
    using Silences_Del_outcomes [where s = ?s0 and Init = window_Init and now = 150 and sid = 8]
    by simp
  have 2: "Silences_Del window_Init 250 7 ?s0 = (Inl (Errorf ''silence already ended''), ?s0)"
    using Silences_Del_outcomes
            [where s = ?s0 and Init = window_Init and now = 250 and sid = 7 and sil = 0]
    by simp
  have 3: "Silences_Del window_Init 50 7 ?s0 =
             (Inl (Errorf ''silence init: end time must not be before start time''), ?s0)"
    using Silences_Del_outcomes
            [where s = ?s0 and Init = window_Init and now = 50 and sid = 7 and sil = 0
               and msg = "''end time must not be before start time''"]
    by (simp add: window_Init_def)
  have 4: "Silences_Del window_Init 150 7 ?s0 =
         (Inr (),
          \<lparr>heap = [?x0, ?x0\<lparr>UpdatedAt := 150, EndsAt := 150\<rparr>],
            s_st = Merge (updatedAt_of [?x0, ?x0\<lparr>UpdatedAt := 150, EndsAt := 150\<rparr>])
                     [7 \<mapsto> 0] [7 \<mapsto> 1],
            s_send = Some [[7 \<mapsto> 1]]\<rparr>)"
    using Silences_Del_outcomes
            [where s = ?s0 and Init = window_Init and now = 150 and sid = 7 and sil = 0
               and sent = "[]"]
    by (simp add: window_Init_def)
  have 5: "stored (snd (Silences_Del window_Init 150 7 ?s0)) 7 =
         Some (?x0\<lparr>UpdatedAt := 150, EndsAt := 150\<rparr>)"
  proof -
    have "stored (snd (Silences_Del window_Init 150 7 ?s0)) 7 =
            Some ((heap ?s0 ! 0)\<lparr>UpdatedAt := 150, EndsAt := 150\<rparr>)"
      by (rule Silences_Del_outcomes
                 [where s = ?s0 and Init = window_Init and now = 150 and sid = 7 and sil = 0
                    and sent = "[]",
                  THEN conjunct2, THEN conjunct2, THEN conjunct2, THEN conjunct2,
                  THEN conjunct2, THEN mp])
         (simp add: window_Init_def)
    then show ?thesis by simp
  qed
  show ?thesis
    unfolding Let_def by (intro conjI 1 2 3 4 5)
qed

section \<open>Silences.Set\<close>

lemma Silences_Set_heap:
  assumes "sil < length (heap s)"
  shows "(let h1 = (if ID (heap s ! sil) = uuid_Nil
                    then (heap s)[sil := (heap s ! sil)\<lparr>ID := newid\<rparr>]
                    else heap s)
          in h1[sil := (h1 ! sil)\<lparr>UpdatedAt := now\<rparr>]) =
         (heap s)[sil := (heap s ! sil)
                    \<lparr>ID := (if ID (heap s ! sil) = uuid_Nil then newid else ID (heap s ! sil)),
                      UpdatedAt := now\<rparr>]"
  using assms by (simp add: Let_def)

text \<open>
  Claim C7. \<^verbatim>\<open>Silences.Set\<close>, given a pointer to a silence and a registered transport:
  when the identifier of the silence is nil it is set to the one \<^verbatim>\<open>uuid.NewV4\<close> gives,
  otherwise it is kept; \<^verbatim>\<open>UpdatedAt\<close> is set to now; the update with the single entry
  from that identifier to the silence is merged into the store and broadcast; and the
  identifier returned, with a nil error, is the identifier the silence now has.
\<close>

theorem Silences_Set_assigns_stamps_merges:
  assumes "sil < length (heap s)" and "s_send s = Some sent"
  shows "let sid = (if ID (heap s ! sil) = uuid_Nil then newid else ID (heap s ! sil));
             h = (heap s)[sil := (heap s ! sil)\<lparr>ID := sid, UpdatedAt := now\<rparr>];
             update = [sid \<mapsto> sil]
         in Silences_Set now newid sil s =
              (Inr sid,
               s\<lparr>heap := h, s_st := Merge (updatedAt_of h) (s_st s) update,
                 s_send := Some (sent @ [update])\<rparr>) \<and>
            ID (h ! sil) = sid \<and> UpdatedAt (h ! sil) = now \<and>
            s_st (snd (Silences_Set now newid sil s)) sid \<noteq> None"
proof -
  let ?sid = "if ID (heap s ! sil) = uuid_Nil then newid else ID (heap s ! sil)"
  let ?h = "(heap s)[sil := (heap s ! sil)\<lparr>ID := ?sid, UpdatedAt := now\<rparr>]"
  have h: "(let h1 = (if ID (heap s ! sil) = uuid_Nil
                    then (heap s)[sil := (heap s ! sil)\<lparr>ID := newid\<rparr>]
                    else heap s)
          in h1[sil := (h1 ! sil)\<lparr>UpdatedAt := now\<rparr>]) = ?h"
    using assms(1) by (rule Silences_Set_heap)
  have i: "ID (?h ! sil) = ?sid" and u: "UpdatedAt (?h ! sil) = now"
    using assms(1) by simp_all
  have r: "Silences_Set now newid sil s =
              (Inr ?sid,
               s\<lparr>heap := ?h, s_st := Merge (updatedAt_of ?h) (s_st s) [?sid \<mapsto> sil],
                 s_send := Some (sent @ [[?sid \<mapsto> sil]])\<rparr>)"
    unfolding Silences_Set_def using h i assms(2) by (simp add: Let_def)
  have m: "s_st (snd (Silences_Set now newid sil s)) ?sid \<noteq> None"
    unfolding r by (simp add: Merge_apply split: option.splits)
  show ?thesis
    unfolding Let_def using r i u m by (intro conjI)
qed

theorem Silences_Set_assigns_stamps_merges_witness:
  "Silences_Set 150 9 0
     \<lparr>heap = [\<lparr>ID = 0, Matchers = [(''alertname'', ''Foo'')], StartsAt = 100, EndsAt = 200,
               UpdatedAt = 0, CreatedBy = ''ops'', Comment = ''maintenance''\<rparr>],
       s_st = Map.empty, s_send = Some []\<rparr> =
     (Inr 9,
      \<lparr>heap = [\<lparr>ID = 9, Matchers = [(''alertname'', ''Foo'')], StartsAt = 100, EndsAt = 200,
                UpdatedAt = 150, CreatedBy = ''ops'', Comment = ''maintenance''\<rparr>],
        s_st = Merge (updatedAt_of
                 [\<lparr>ID = 9, Matchers = [(''alertname'', ''Foo'')], StartsAt = 100, EndsAt = 200,
                   UpdatedAt = 150, CreatedBy = ''ops'', Comment = ''maintenance''\<rparr>])
                 Map.empty [9 \<mapsto> 0],
        s_send = Some [[9 \<mapsto> 0]]\<rparr>) \<and>
   fst (Silences_Set 150 9 0
     \<lparr>heap = [\<lparr>ID = 7, Matchers = [(''alertname'', ''Foo'')], StartsAt = 100, EndsAt = 200,
               UpdatedAt = 90, CreatedBy = ''ops'', Comment = ''maintenance''\<rparr>],
       s_st = [7 \<mapsto> 0], s_send = Some []\<rparr>) = Inr 7"
  using Silences_Set_assigns_stamps_merges
          [where sil = 0 and now = 150 and newid = 9 and sent = "[]"
             and s = "\<lparr>heap = [\<lparr>ID = 0, Matchers = [(''alertname'', ''Foo'')], StartsAt = 100,
                                 EndsAt = 200, UpdatedAt = 0, CreatedBy = ''ops'',
                                 Comment = ''maintenance''\<rparr>],
                        s_st = Map.empty, s_send = Some []\<rparr>"]
        Silences_Set_assigns_stamps_merges
          [where sil = 0 and now = 150 and newid = 9 and sent = "[]"
             and s = "\<lparr>heap = [\<lparr>ID = 7, Matchers = [(''alertname'', ''Foo'')], StartsAt = 100,
                                 EndsAt = 200, UpdatedAt = 90, CreatedBy = ''ops'',
                                 Comment = ''maintenance''\<rparr>],
                        s_st = [7 \<mapsto> 0], s_send = Some []\<rparr>"]
  by (simp add: uuid_Nil_def Let_def)

text \<open>
  Claim C5 says that \<^verbatim>\<open>Silences.Set\<close> returns an error for a silence with invalid
  content. It does not: a silence whose window ends before it starts, with no matchers,
  author or comment, is accepted and its identifier returned.
\<close>

theorem Silences_Set_invalid_counterexample:
  "window_Init \<lparr>ID = 0, Matchers = ([] :: (string \<times> string) list), StartsAt = 300,
                EndsAt = 200, UpdatedAt = 0, CreatedBy = [], Comment = []\<rparr> =
     Some ''end time must not be before start time'' \<and>
   fst (Silences_Set 150 9 0
     \<lparr>heap = [\<lparr>ID = 0, Matchers = ([] :: (string \<times> string) list), StartsAt = 300,
               EndsAt = 200, UpdatedAt = 0, CreatedBy = [], Comment = []\<rparr>],
       s_st = Map.empty, s_send = Some []\<rparr>) = Inr 9"
  by (simp add: window_Init_def Silences_Set_def uuid_Nil_def Let_def)

text \<open>
  Claim C5, amended. \<^verbatim>\<open>Silences.Set\<close> does not validate the silence: for every
  silence, valid or not, it returns an identifier and a nil error once a transport is
  registered, having broadcast the update; it never returns an error (without a
  transport it panics on the nil handle).
\<close>

theorem Silences_Set_never_rejects:
  "(s_send s = Some sent \<longrightarrow>
      (\<exists>sid s'. Silences_Set now newid sil s = (Inr sid, s') \<and>
                s_send s' = Some (sent @ [[sid \<mapsto> sil]]))) \<and>
   (\<forall>e. fst (Silences_Set now newid sil s) = Inl e \<longrightarrow> e = PanicNilGossip)"
  by (auto simp: Silences_Set_def Let_def split: option.splits)

theorem Silences_Set_never_rejects_witness:
  "(\<exists>sid s'. Silences_Set 150 9 0
       \<lparr>heap = [\<lparr>ID = 0, Matchers = ([] :: (string \<times> string) list), StartsAt = 300,
                 EndsAt = 200, UpdatedAt = 0, CreatedBy = [], Comment = []\<rparr>],
         s_st = Map.empty, s_send = Some []\<rparr> = (Inr sid, s') \<and>
       s_send s' = Some [[sid \<mapsto> 0]]) \<and>
   fst (Silences_Set 150 9 0
       \<lparr>heap = [\<lparr>ID = 0, Matchers = ([] :: (string \<times> string) list), StartsAt = 300,
                 EndsAt = 200, UpdatedAt = 0, CreatedBy = [], Comment = []\<rparr>],
         s_st = Map.empty, s_send = None\<rparr>) = Inl PanicNilGossip"
proof -
  have p: "\<exists>e. fst (Silences_Set 150 9 0
       \<lparr>heap = [\<lparr>ID = 0, Matchers = ([] :: (string \<times> string) list), StartsAt = 300,
                 EndsAt = 200, UpdatedAt = 0, CreatedBy = [], Comment = []\<rparr>],
         s_st = Map.empty, s_send = None\<rparr>) = Inl e"
    by (simp add: Silences_Set_def Let_def)
  show ?thesis
    using p
      Silences_Set_never_rejects
        [where now = 150 and newid = 9 and sil = 0 and sent = "[]"
           and s = "\<lparr>heap = [\<lparr>ID = 0, Matchers = ([] :: (string \<times> string) list),
                               StartsAt = 300, EndsAt = 200, UpdatedAt = 0, CreatedBy = [],
                               Comment = []\<rparr>],
                      s_st = Map.empty, s_send = Some []\<rparr>"]
      Silences_Set_never_rejects
        [where now = 150 and newid = 9 and sil = 0
           and s = "\<lparr>heap = [\<lparr>ID = 0, Matchers = ([] :: (string \<times> string) list),
                               StartsAt = 300, EndsAt = 200, UpdatedAt = 0, CreatedBy = [],
                               Comment = []\<rparr>],
                      s_st = Map.empty, s_send = None\<rparr>"]
    by auto
qed

section \<open>Silences.Get and Silences.All\<close>

lemma foldl_snoc_present:
  "foldl (\<lambda>res k. case m k of Some v \<Rightarrow> res @ [v] | None \<Rightarrow> res) acc ks =
     acc @ map (\<lambda>k. the (m k)) (filter (\<lambda>k. m k \<noteq> None) ks)"
  by (induction ks arbitrary: acc) (auto split: option.splits)

lemma Silences_All_pointers:
  assumes "set keys = dom (s_st s)"
  shows "Silences_All keys s = Inr (map (\<lambda>k. the (s_st s k)) keys)"
proof -
  have "filter (\<lambda>k. s_st s k \<noteq> None) keys = keys"
    using assms by (auto simp: filter_id_conv)
  then show ?thesis
    by (simp add: Silences_All_def foldl_snoc_present)
qed

lemma ran_the_dom: "(\<lambda>k. the (m k)) ` dom m = ran m"
  by (force simp: ran_def dom_def image_iff)

lemma stored_write_elsewhere:
  assumes "p \<notin> ran (s_st s)"
  shows "stored (write_through p f s) = stored s"
proof (rule ext)
  fix k
  show "stored (write_through p f s) k = stored s k"
  proof (cases "s_st s k")
    case None
    then show ?thesis by (simp add: stored_def write_through_def)
  next
    case (Some a)
    then have "a \<in> ran (s_st s)" by (auto simp: ran_def)
    with assms have "a \<noteq> p" by auto
    with Some show ?thesis by (simp add: stored_def write_through_def)
  qed
qed

text \<open>
  Claim C4 says that \<^verbatim>\<open>Get\<close> and \<^verbatim>\<open>All\<close> hand out copies, so that a change of a
  returned silence leaves the store as it was. They hand out the stored pointers: an
  assignment through the pointer \<^verbatim>\<open>Get\<close> returned changes what the store holds.
\<close>

theorem Silences_Get_All_alias_counterexample:
  "Silences_Get 7
     \<lparr>heap = [\<lparr>ID = 7, Matchers = [(''alertname'', ''Foo'')], StartsAt = 100, EndsAt = 200,
               UpdatedAt = 90, CreatedBy = ''ops'', Comment = ''maintenance''\<rparr>],
       s_st = [7 \<mapsto> 0], s_send = None\<rparr> = Inr 0 \<and>
   Silences_All [7]
     \<lparr>heap = [\<lparr>ID = 7, Matchers = [(''alertname'', ''Foo'')], StartsAt = 100, EndsAt = 200,
               UpdatedAt = 90, CreatedBy = ''ops'', Comment = ''maintenance''\<rparr>],
       s_st = [7 \<mapsto> 0], s_send = None\<rparr> = Inr [0] \<and>
   stored (write_through 0 (\<lambda>x. x\<lparr>EndsAt := 0\<rparr>)
     \<lparr>heap = [\<lparr>ID = 7, Matchers = [(''alertname'', ''Foo'')], StartsAt = 100, EndsAt = 200,
               UpdatedAt = 90, CreatedBy = ''ops'', Comment = ''maintenance''\<rparr>],
       s_st = [7 \<mapsto> 0], s_send = None\<rparr>) 7 \<noteq>
   stored
     \<lparr>heap = [\<lparr>ID = 7, Matchers = [(''alertname'', ''Foo'')], StartsAt = 100, EndsAt = 200,
               UpdatedAt = 90, CreatedBy = ''ops'', Comment = ''maintenance''\<rparr>],
       s_st = [7 \<mapsto> 0], s_send = None\<rparr> 7"
  by (simp add: Silences_Get_def Silences_All_def stored_def write_through_def)

text \<open>
  Claim C4, amended. \<^verbatim>\<open>Silences.Get\<close> returns the pointer the store's map holds for
  the identifier, and \<^verbatim>\<open>Silences.All\<close> returns exactly the pointers of the map, one
  per key: references to the stored objects, not copies. An assignment through such a
  pointer changes the record the store holds; only an assignment to an object the
  store does not point to leaves the stored state unchanged.
\<close>

theorem Silences_Get_All_return_stored_pointers:
  "(Silences_Get sid s = Inr p \<longrightarrow> s_st s sid = Some p) \<and>
   (s_st s sid = Some p \<longrightarrow> Silences_Get sid s = Inr p) \<and>
   (set keys = dom (s_st s) \<longrightarrow>
      (\<exists>ps. Silences_All keys s = Inr ps \<and> length ps = length keys \<and>
            set ps = ran (s_st s))) \<and>
   (s_st s sid = Some p \<and> p < length (heap s) \<longrightarrow>
      stored (write_through p f s) sid = Some (f (heap s ! p))) \<and>
   (p \<notin> ran (s_st s) \<longrightarrow> stored (write_through p f s) = stored s)"
proof -
  have a: "Silences_Get sid s = Inr p \<longrightarrow> s_st s sid = Some p"
    by (simp add: Silences_Get_def split: option.splits)
  have b: "s_st s sid = Some p \<longrightarrow> Silences_Get sid s = Inr p"
    by (simp add: Silences_Get_def)
  have c: "set keys = dom (s_st s) \<longrightarrow>
      (\<exists>ps. Silences_All keys s = Inr ps \<and> length ps = length keys \<and>
            set ps = ran (s_st s))"
  proof
    assume k: "set keys = dom (s_st s)"
    have "set (map (\<lambda>k. the (s_st s k)) keys) = ran (s_st s)"
      using k ran_the_dom [of "s_st s"] by simp
    with Silences_All_pointers [OF k]
    show "\<exists>ps. Silences_All keys s = Inr ps \<and> length ps = length keys \<and>
            set ps = ran (s_st s)"
      by simp
  qed
  have d: "s_st s sid = Some p \<and> p < length (heap s) \<longrightarrow>
      stored (write_through p f s) sid = Some (f (heap s ! p))"
    by (simp add: stored_def write_through_def)
  have e: "p \<notin> ran (s_st s) \<longrightarrow> stored (write_through p f s) = stored s"
    using stored_write_elsewhere by blast
  from a b c d e show ?thesis by (intro conjI)
qed

theorem Silences_Get_All_return_stored_pointers_witness:
  "Silences_Get 7
     \<lparr>heap = [\<lparr>ID = 7, Matchers = [(''alertname'', ''Foo'')], StartsAt = 100, EndsAt = 200,
               UpdatedAt = 90, CreatedBy = ''ops'', Comment = ''maintenance''\<rparr>],
       s_st = [7 \<mapsto> 0], s_send = None\<rparr> = Inr 0 \<and>
   (\<exists>ps. Silences_All [7]
           \<lparr>heap = [\<lparr>ID = 7, Matchers = [(''alertname'', ''Foo'')], StartsAt = 100,
                     EndsAt = 200, UpdatedAt = 90, CreatedBy = ''ops'',
                     Comment = ''maintenance''\<rparr>],
             s_st = [7 \<mapsto> 0], s_send = None\<rparr> = Inr ps \<and>
         length ps = 1 \<and> set ps = {0}) \<and>
   stored (write_through 0 (\<lambda>x. x\<lparr>EndsAt := 0\<rparr>)
     \<lparr>heap = [\<lparr>ID = 7, Matchers = [(''alertname'', ''Foo'')], StartsAt = 100, EndsAt = 200,
               UpdatedAt = 90, CreatedBy = ''ops'', Comment = ''maintenance''\<rparr>],
       s_st = [7 \<mapsto> 0], s_send = None\<rparr>) 7 =
     Some \<lparr>ID = 7, Matchers = [(''alertname'', ''Foo'')], StartsAt = 100, EndsAt = 0,
            UpdatedAt = 90, CreatedBy = ''ops'', Comment = ''maintenance''\<rparr> \<and>
   stored (write_through 1 (\<lambda>x. x\<lparr>EndsAt := 0\<rparr>)
     \<lparr>heap = [\<lparr>ID = 7, Matchers = [(''alertname'', ''Foo'')], StartsAt = 100, EndsAt = 200,
               UpdatedAt = 90, CreatedBy = ''ops'', Comment = ''maintenance''\<rparr>],
       s_st = [7 \<mapsto> 0], s_send = None\<rparr>) =
   stored
     \<lparr>heap = [\<lparr>ID = 7, Matchers = [(''alertname'', ''Foo'')], StartsAt = 100, EndsAt = 200,
               UpdatedAt = 90, CreatedBy = ''ops'', Comment = ''maintenance''\<rparr>],
       s_st = [7 \<mapsto> 0], s_send = None\<rparr>"
  using Silences_Get_All_return_stored_pointers
          [where sid = 7 and p = 0 and keys = "[7]" and f = "\<lambda>x. x\<lparr>EndsAt := 0\<rparr>"
             and s = "\<lparr>heap = [\<lparr>ID = 7, Matchers = [(''alertname'', ''Foo'')], StartsAt = 100,
                                 EndsAt = 200, UpdatedAt = 90, CreatedBy = ''ops'',
                                 Comment = ''maintenance''\<rparr>],
                        s_st = [7 \<mapsto> 0], s_send = None\<rparr>"]
        Silences_Get_All_return_stored_pointers
          [where sid = 7 and p = 1 and keys = "[7]" and f = "\<lambda>x. x\<lparr>EndsAt := 0\<rparr>"
             and s = "\<lparr>heap = [\<lparr>ID = 7, Matchers = [(''alertname'', ''Foo'')], StartsAt = 100,
                                 EndsAt = 200, UpdatedAt = 90, CreatedBy = ''ops'',
                                 Comment = ''maintenance''\<rparr>],
                        s_st = [7 \<mapsto> 0], s_send = None\<rparr>"]
  by simp

section \<open>Readers and the read lock\<close>

lemma under_read_lock_reads:
  "under_read_lock (Suc held) (replicate n ReadSet @ as) = under_read_lock (Suc held) as"
  by (induction n) simp_all

text \<open>
  Claim C9, the part of it that is about single readers. The three readers of the
  silence store read the map only between \<^verbatim>\<open>RLock\<close> and \<^verbatim>\<open>RUnlock\<close>.
  \<^verbatim>\<open>NotificationInfos.Get\<close> reads the map of the notification store without taking
  the lock: called with at least one fingerprint it reads the map holding nothing.
\<close>

theorem NotificationInfos_Get_reads_without_lock:
  "under_read_lock 0 Silences_Get_accesses \<and>
   under_read_lock 0 (Silences_All_accesses n) \<and>
   under_read_lock 0 (Silences_Mutes_accesses n) \<and>
   \<not> under_read_lock 0 (NotificationInfos_Get_accesses (fp # fps))"
  by (simp add: Silences_Get_accesses_def Silences_All_accesses_def
      Silences_Mutes_accesses_def NotificationInfos_Get_accesses_def under_read_lock_reads)

end
